theory Spec2Isabelle
  imports Main
begin

section \<open>Byte strings and the library calls of server.go\<close>

text \<open>
  Go strings and byte slices are modelled as \<open>char list\<close>; a \<open>char\<close> is one byte.
  The functions of this section render the standard-library calls that
  \<open>server.go\<close> makes (\<open>strings\<close>, \<open>strconv\<close>, \<open>path/filepath\<close>, \<open>fmt\<close>,
  \<open>crypto/subtle\<close>) on a Unix system, where the path separator is the slash.
\<close>

type_synonym bytes = string

definition HasPrefix :: "string \<Rightarrow> string \<Rightarrow> bool" where
  "HasPrefix s p = (length p \<le> length s \<and> take (length p) s = p)"

definition HasSuffix :: "string \<Rightarrow> string \<Rightarrow> bool" where
  "HasSuffix s suffix =
     (length suffix \<le> length s \<and> drop (length s - length suffix) s = suffix)"

definition TrimSuffix :: "string \<Rightarrow> string \<Rightarrow> string" where
  "TrimSuffix s suffix =
     (if HasSuffix s suffix then take (length s - length suffix) s else s)"

text \<open>\<open>strings.Contains(s, substr)\<close>: \<open>substr\<close> occurs at some offset of \<open>s\<close>.\<close>

fun Contains :: "string \<Rightarrow> string \<Rightarrow> bool" where
  "Contains [] substr = (substr = [])"
| "Contains (c # cs) substr = (HasPrefix (c # cs) substr \<or> Contains cs substr)"

definition digit_char :: "nat \<Rightarrow> char" where
  "digit_char n = ''0123456789'' ! (n mod 10)"

fun digits :: "nat \<Rightarrow> string" where
  "digits n = (if n < 10 then [digit_char n] else digits (n div 10) @ [digit_char (n mod 10)])"

text \<open>\<open>strconv.Itoa\<close>, and the verb \<open>%d\<close> of \<open>fmt\<close>, on an integer.\<close>

definition Itoa :: "int \<Rightarrow> string" where
  "Itoa i = (if i < 0 then CHR ''-'' # digits (nat (- i)) else digits (nat i))"

text \<open>
  \<open>filepath.Split\<close> walks back from the end of the path to the last separator and
  cuts there. The loop counter of the model is the Go counter plus one, so that it
  stops at 0 where the Go counter stops at -1.
\<close>

fun split_loop :: "string \<Rightarrow> nat \<Rightarrow> nat" where
  "split_loop path 0 = 0"
| "split_loop path (Suc i) = (if path ! i = CHR ''/'' then Suc i else split_loop path i)"

definition Split :: "string \<Rightarrow> string \<times> string" where
  "Split path = (let k = split_loop path (length path) in (take k path, drop k path))"

text \<open>
  \<open>filepath.Ext\<close> walks back from the end of the path, returns the suffix that
  starts at the first dot it meets and gives up (with the empty string) at a separator.
\<close>

fun ext_loop :: "string \<Rightarrow> nat \<Rightarrow> string" where
  "ext_loop path 0 = []"
| "ext_loop path (Suc i) =
     (if path ! i = CHR ''/'' then []
      else if path ! i = CHR ''.'' then drop i path
      else ext_loop path i)"

definition Ext :: "string \<Rightarrow> string" where
  "Ext path = ext_loop path (length path)"

text \<open>
  \<open>fmt.Sprintf(format, a)\<close> with one string operand, for formats whose only verb is
  \<open>%s\<close> (every format of \<open>server.go\<close> that takes a single string is of this kind).
  The flag records whether the operand has been consumed: a second \<open>%s\<close> prints Go's
  missing-operand marker, an operand that no verb consumed is reported at the end.
\<close>

fun Sprintf1 :: "string \<Rightarrow> string \<Rightarrow> bool \<Rightarrow> string" where
  "Sprintf1 [] a used = (if used then [] else ''%!(EXTRA string='' @ a @ '')'')"
| "Sprintf1 [c] a used = c # Sprintf1 [] a used"
| "Sprintf1 (c # d # fs) a used =
     (if c = CHR ''%'' \<and> d = CHR ''s''
      then (if used then ''%!s(MISSING)'' else a) @ Sprintf1 fs a True
      else c # Sprintf1 (d # fs) a used)"

definition Sprintf_s :: "string \<Rightarrow> string \<Rightarrow> string" where
  "Sprintf_s format a = Sprintf1 format a False"

text \<open>
  \<open>subtle.ConstantTimeCompare\<close> returns 1 when the two slices have the same length
  and the same contents, and 0 otherwise.
\<close>

definition ConstantTimeCompare :: "bytes \<Rightarrow> bytes \<Rightarrow> int" where
  "ConstantTimeCompare x y = (if length x \<noteq> length y then 0 else if x = y then 1 else 0)"

section \<open>Configuration, errors, requests and responses\<close>

text \<open>
  The fields of the configuration that \<open>server.go\<close> reads. The listener's fields
  (bind address, connection cap, read timeout) play no part in request handling.
\<close>

record conf =
  Concurrency :: int
  WriteTimeout :: int
  TTL :: int
  Secret :: string
  AllowOrigin :: string
  GZipCompression :: int
  ETagEnabled :: bool

text \<open>
  The image formats are the keys of the two tables of \<open>server.go\<close>;
  \<open>imageTypeUnknown\<close> stands for every other value of the Go type, for which a
  lookup in either table yields the empty string.
\<close>

datatype imageType =
  imageTypeUnknown | imageTypeJPEG | imageTypePNG | imageTypeWEBP | imageTypeGIF | imageTypeICO

fun mimes :: "imageType \<Rightarrow> string option" where
  "mimes imageTypeJPEG = Some ''image/jpeg''"
| "mimes imageTypePNG = Some ''image/png''"
| "mimes imageTypeWEBP = Some ''image/webp''"
| "mimes imageTypeGIF = Some ''image/gif''"
| "mimes imageTypeICO = Some ''image/x-icon''"
| "mimes imageTypeUnknown = None"

fun contentDispositionsFmt :: "imageType \<Rightarrow> string option" where
  \<open>contentDispositionsFmt imageTypeJPEG = Some ''inline; filename="%s.jpg"''\<close>
| \<open>contentDispositionsFmt imageTypePNG = Some ''inline; filename="%s.png"''\<close>
| \<open>contentDispositionsFmt imageTypeWEBP = Some ''inline; filename="%s.webp"''\<close>
| \<open>contentDispositionsFmt imageTypeGIF = Some ''inline; filename="%s.gif"''\<close>
| \<open>contentDispositionsFmt imageTypeICO = Some ''inline; filename="%s.ico"''\<close>
| \<open>contentDispositionsFmt imageTypeUnknown = None\<close>

text \<open>Indexing a Go map of strings: a missing key reads as the empty string.\<close>

definition lookup :: "('k \<Rightarrow> string option) \<Rightarrow> 'k \<Rightarrow> string" where
  "lookup m k = (case m k of None \<Rightarrow> [] | Some v \<Rightarrow> v)"

definition healthPath :: string where
  "healthPath = ''/health''"

definition contextDispositionFilenameFallback :: string where
  "contextDispositionFilenameFallback = ''image''"

definition imgproxyIsRunningMsg :: bytes where
  "imgproxyIsRunningMsg = ''imgproxy is running''"

record imgproxyError =
  StatusCode :: int
  Message :: string
  PublicMessage :: string

text \<open>
  Modelled from the spec: the constructor \<open>newError\<close> is not part of \<open>server.go\<close>. A
  typed error carries a status code, an internal diagnostic message and a public
  message, in the order of the constructor's arguments; \<open>server.go\<close> reads the three
  fields by these names.
\<close>

definition newError :: "int \<Rightarrow> string \<Rightarrow> string \<Rightarrow> imgproxyError" where
  "newError st msg pub = \<lparr>StatusCode = st, Message = msg, PublicMessage = pub\<rparr>"

definition errInvalidMethod :: imgproxyError where
  "errInvalidMethod = newError 422 ''Invalid request method'' ''Method doesn't allowed''"

definition errInvalidSecret :: imgproxyError where
  "errInvalidSecret = newError 403 ''Invalid secret'' ''Forbidden''"

text \<open>
  A value of Go's interface type \<open>error\<close> is either a typed imgproxy error or some
  other error, of which the model keeps the text. A panic carries either an error or
  a value that is no error at all (a string, say).
\<close>

datatype go_error = ImgproxyError imgproxyError | OtherError string

datatype panic_value = PanicError go_error | PanicValue string

text \<open>
  What a call of a collaborator does: it returns a value, returns an error, or panics.
\<close>

datatype 'a outcome = Returns 'a | Fails go_error | Panics panic_value

text \<open>
  How a block of \<open>ServeHTTP\<close> ends: control falls through to the next statement, the
  handler executes \<open>return\<close>, or a panic unwinds it.
\<close>

datatype flow = Next | Return | Panic panic_value

record url =
  Scheme :: string
  Host :: string
  Path :: string
  RawQuery :: string

text \<open>
  Modelled from the spec: the declaration of the processing options is not part of
  \<open>server.go\<close>, which reads the target format only. The other transformation
  parameters are kept as one opaque field.
\<close>

record processingOptions =
  Format :: imageType
  Transform :: string

text \<open>
  A request, as far as the handler reads it: the method, the request target that
  \<open>r.URL.RequestURI()\<close> returns (the path, followed by \<open>?\<close> and the query when there
  is one), and the headers. \<open>Header.Get\<close> reads a missing header as the empty string.
\<close>

record request =
  Method :: string
  RequestURI :: string
  Header :: "string \<Rightarrow> string option"

definition Header_Get :: "request \<Rightarrow> string \<Rightarrow> string" where
  "Header_Get r k = lookup (Header r) k"

text \<open>
  The response writer: the header map under construction, the status line once it
  has been written, the headers that went out with it, and the body. The first
  \<open>WriteHeader\<close> sends the status and a snapshot of the header map; a later one
  changes nothing. \<open>Write\<close> sends status 200 first when no status has been written.
\<close>

record responseWriter =
  hdr :: "string \<Rightarrow> string option"
  status :: "int option"
  sent_hdr :: "string \<Rightarrow> string option"
  body :: bytes

definition fresh_rw :: responseWriter where
  "fresh_rw = \<lparr>hdr = Map.empty, status = None, sent_hdr = Map.empty, body = []\<rparr>"

definition Header_Set :: "string \<Rightarrow> string \<Rightarrow> responseWriter \<Rightarrow> responseWriter" where
  "Header_Set k v w = w\<lparr>hdr := (hdr w)(k \<mapsto> v)\<rparr>"

definition WriteHeader :: "int \<Rightarrow> responseWriter \<Rightarrow> responseWriter" where
  "WriteHeader code w =
     (if status w = None then w\<lparr>status := Some code, sent_hdr := hdr w\<rparr> else w)"

definition Write :: "bytes \<Rightarrow> responseWriter \<Rightarrow> responseWriter" where
  "Write b w = (let w' = WriteHeader 200 w in w'\<lparr>body := body w' @ b\<rparr>)"

section \<open>The state that a request runs in\<close>

text \<open>
  The semaphore \<open>h.sem\<close> is a channel of empty structs: only its capacity and the
  number of buffered elements matter.
\<close>

record chan =
  chan_cap :: nat
  chan_len :: nat

text \<open>
  The calls that the model records, each with the time at which it was made.
\<close>

datatype event =
  EvLock | EvUnlock | EvStartTimer | EvTimeoutCancel | EvParsePath | EvDownloadImage
  | EvDownloadCancel | EvCheckTimeout | EvCalcETag | EvProcessImage | EvGzipData

text \<open>
  The collaborators of the handler, which live outside \<open>server.go\<close>, as they behave
  for one request: the request-ID generator, the path parser, the downloader, the
  processor, the compressor (the bytes it writes into the buffer and the panic it
  ends with, if any), the time each call takes, the error that an elapsed deadline
  raises, and the formatting done by the standard library (\<open>url.Parse\<close>, the HTTP
  time format, the durations and options printed in the log, the text of an
  unexpected error with its stack trace of the given depth).
\<close>

record env =
  reqID :: string
  parsePath :: "request \<Rightarrow> (processingOptions \<times> string) outcome"
  downloadImage :: "string \<Rightarrow> bytes outcome"
  validator :: "bytes \<Rightarrow> processingOptions \<Rightarrow> string"
  processImage :: "bytes \<Rightarrow> processingOptions \<Rightarrow> bytes outcome"
  gzipData :: "bytes \<Rightarrow> bytes \<times> panic_value option"
  elapsed :: "event \<Rightarrow> nat"
  errTimeout :: imgproxyError
  url_Parse :: "string \<Rightarrow> url option"
  http_time :: "int \<Rightarrow> string"
  duration_str :: "int \<Rightarrow> string"
  po_str :: "processingOptions \<Rightarrow> string"
  unexpected_msg :: "go_error \<Rightarrow> nat \<Rightarrow> string"

text \<open>
  The state threaded through a run of the handler: the semaphore of the handler,
  the two package-level variables \<open>authHeaderMust\<close> and \<open>responseBufPool\<close> (a buffer
  is its contents), the clock in nanoseconds, the deadline of the request's context
  once the timer has been started, the calls made so far, the lines written by
  \<open>logResponse\<close> (colour, status, message) and the response writer.
\<close>

record state =
  h_sem :: chan
  authHeaderMust :: bytes
  responseBufPool :: "bytes list"
  clock :: int
  deadline :: "int option"
  calls :: "(event \<times> int) list"
  logged :: "(int \<times> int \<times> string) list"
  rw :: responseWriter

definition second :: int where
  "second = 1000000000"

text \<open>
  \<open>mark\<close> records a call of the handler's own at the current time; \<open>call\<close> records
  a call of a collaborator and lets the time it takes pass.
\<close>

definition mark :: "event \<Rightarrow> state \<Rightarrow> state" where
  "mark ev s = s\<lparr>calls := calls s @ [(ev, clock s)]\<rparr>"

definition call :: "event \<Rightarrow> env \<Rightarrow> state \<Rightarrow> state" where
  "call ev e s = s\<lparr>calls := calls s @ [(ev, clock s)], clock := clock s + int (elapsed e ev)\<rparr>"

definition setHeader :: "string \<Rightarrow> string \<Rightarrow> state \<Rightarrow> state" where
  "setHeader k v s = s\<lparr>rw := Header_Set k v (rw s)\<rparr>"

definition writeHeader :: "int \<Rightarrow> state \<Rightarrow> state" where
  "writeHeader code s = s\<lparr>rw := WriteHeader code (rw s)\<rparr>"

definition writeBytes :: "bytes \<Rightarrow> state \<Rightarrow> state" where
  "writeBytes b s = s\<lparr>rw := Write b (rw s)\<rparr>"

section \<open>The functions of server.go\<close>


text \<open>
  \<open>logResponse\<close> picks the colour from the status and prints one line.
\<close>

definition logResponse :: "int \<Rightarrow> string \<Rightarrow> state \<Rightarrow> state" where
  "logResponse st msg s =
     (let color = (if st \<ge> 500 then 31 else if st \<ge> 400 then 33 else 32)
      in s\<lparr>logged := logged s @ [(color, st, msg)]\<rparr>)"

definition writeCORS :: "conf \<Rightarrow> state \<Rightarrow> state" where
  "writeCORS c s =
     (if length (AllowOrigin c) > 0
      then setHeader ''Access-Control-Allow-Methods'' ''GET, OPTIONs''
             (setHeader ''Access-Control-Allow-Origin'' (AllowOrigin c) s)
      else s)"

definition contentDisposition :: "env \<Rightarrow> string \<Rightarrow> imageType \<Rightarrow> string" where
  "contentDisposition e imageURL imgtype =
     (case url_Parse e imageURL of
        None \<Rightarrow>
          Sprintf_s (lookup contentDispositionsFmt imgtype) contextDispositionFilenameFallback
      | Some u \<Rightarrow>
          (let filename = snd (Split (Path u)) in
           if length filename = 0
           then Sprintf_s (lookup contentDispositionsFmt imgtype)
                  contextDispositionFilenameFallback
           else Sprintf_s (lookup contentDispositionsFmt imgtype)
                  (TrimSuffix filename (Ext filename))))"

text \<open>
  \<open>responseBufPool.Get()\<close> hands out a pooled buffer, or a new, empty one when the
  pool has none; \<open>Put\<close> gives a buffer back.
\<close>

definition pool_Get :: "bytes list \<Rightarrow> bytes \<times> bytes list" where
  "pool_Get pool = (case pool of [] \<Rightarrow> ([], []) | b # bs \<Rightarrow> (b, bs))"

definition pool_Put :: "bytes \<Rightarrow> bytes list \<Rightarrow> bytes list" where
  "pool_Put b pool = b # pool"

text \<open>
  \<open>respondWithImage\<close>. The processing options and the image URL, which the Go code
  reads from the context, are passed as arguments. In the gzip branch the buffer is
  taken from the pool, reset, filled by \<open>gzipData\<close>, written out by \<open>buf.WriteTo\<close>
  (which leaves it empty) and put back by the deferred \<open>Put\<close>, also when \<open>gzipData\<close>
  panics.
\<close>

definition respondWithImage ::
    "conf \<Rightarrow> env \<Rightarrow> request \<Rightarrow> processingOptions \<Rightarrow> string \<Rightarrow> bytes \<Rightarrow> state \<Rightarrow> state \<times> flow" where
  "respondWithImage c e r po imageURL data s =
     (let s1 = setHeader ''Expires'' (http_time e (clock s + second * TTL c)) s;
          s2 = setHeader ''Cache-Control'' (''max-age='' @ Itoa (TTL c) @ '', public'') s1;
          s3 = setHeader ''Content-Type'' (lookup mimes (Format po)) s2;
          s4 = setHeader ''Content-Disposition'' (contentDisposition e imageURL (Format po)) s3;
          msg = ''['' @ reqID e @ ''] Processed in '' @ duration_str e (clock s) @ '': ''
                  @ imageURL @ ''; '' @ po_str e po
      in if GZipCompression c > 0 \<and> Contains (Header_Get r ''Accept-Encoding'') ''gzip''
         then
           (let (buf0, pool) = pool_Get (responseBufPool s4);
                buf1 = [];
                s5 = call EvGzipData e s4;
                (written, pan) = gzipData e data;
                buf2 = buf1 @ written
            in case pan of
                 Some p \<Rightarrow> (s5\<lparr>responseBufPool := pool_Put buf2 pool\<rparr>, Panic p)
               | None \<Rightarrow>
                   (let s6 = setHeader ''Content-Encoding'' ''gzip'' s5;
                        s7 = setHeader ''Content-Length'' (Itoa (int (length buf2))) s6;
                        s8 = writeHeader 200 s7;
                        s9 = writeBytes buf2 s8;
                        buf3 = [];
                        s10 = logResponse 200 msg s9
                    in (s10\<lparr>responseBufPool := pool_Put buf3 pool\<rparr>, Next)))
         else
           (let s5 = setHeader ''Content-Length'' (Itoa (int (length data))) s4;
                s6 = writeHeader 200 s5;
                s7 = writeBytes data s6
            in (logResponse 200 msg s7, Next)))"

definition respondWithError :: "env \<Rightarrow> imgproxyError \<Rightarrow> state \<Rightarrow> state" where
  "respondWithError e err s =
     (let s1 = logResponse (StatusCode err) (''['' @ reqID e @ ''] '' @ Message err) s;
          s2 = writeHeader (StatusCode err) s1
      in writeBytes (PublicMessage err) s2)"

definition respondWithOptions :: "env \<Rightarrow> state \<Rightarrow> state" where
  "respondWithOptions e s =
     writeHeader 200 (logResponse 200 (''['' @ reqID e @ ''] Respond with options'') s)"

definition respondWithNotModified :: "env \<Rightarrow> state \<Rightarrow> state" where
  "respondWithNotModified e s =
     writeHeader 304 (logResponse 200 (''['' @ reqID e @ ''] Not modified'') s)"

text \<open>
  \<open>prepareAuthHeaderMust\<close> builds the expected header value when the package-level
  variable is still empty, and returns the variable.
\<close>

definition prepareAuthHeaderMust :: "conf \<Rightarrow> state \<Rightarrow> bytes \<times> state" where
  "prepareAuthHeaderMust c s =
     (let s' = (if length (authHeaderMust s) = 0
                then s\<lparr>authHeaderMust := Sprintf_s ''Bearer %s'' (Secret c)\<rparr>
                else s)
      in (authHeaderMust s', s'))"

definition checkSecret :: "conf \<Rightarrow> request \<Rightarrow> state \<Rightarrow> bool \<times> state" where
  "checkSecret c r s =
     (if length (Secret c) = 0 then (True, s)
      else (let (must, s') = prepareAuthHeaderMust c s
            in (ConstantTimeCompare (Header_Get r ''Authorization'') must = 1, s')))"

text \<open>
  \<open>lock\<close> sends on the semaphore and \<open>unlock\<close> receives from it. A send goes through
  when the buffer has room and a receive when the buffer holds an element; otherwise
  the goroutine blocks, which for a run of one request on its own is the value \<open>None\<close>.
\<close>

definition acquired :: "state \<Rightarrow> state" where
  "acquired s = mark EvLock (s\<lparr>h_sem := (h_sem s)\<lparr>chan_len := chan_len (h_sem s) + 1\<rparr>\<rparr>)"

definition released :: "state \<Rightarrow> state" where
  "released s = mark EvUnlock (s\<lparr>h_sem := (h_sem s)\<lparr>chan_len := chan_len (h_sem s) - 1\<rparr>\<rparr>)"

definition lock :: "state \<Rightarrow> state option" where
  "lock s = (if chan_len (h_sem s) < chan_cap (h_sem s) then Some (acquired s) else None)"

definition unlock :: "state \<Rightarrow> state option" where
  "unlock s = (if chan_len (h_sem s) > 0 then Some (released s) else None)"

text \<open>
  Modelled from the spec: \<open>startTimer\<close> is not part of \<open>server.go\<close>. It derives a
  context that is cancelled once the given duration has passed from this point.
\<close>

definition startTimer :: "int \<Rightarrow> state \<Rightarrow> state" where
  "startTimer d s = mark EvStartTimer (s\<lparr>deadline := Some (clock s + d)\<rparr>)"

text \<open>
  Modelled from the spec: \<open>checkTimeout\<close> is not part of \<open>server.go\<close>. If the deadline
  has already elapsed it fails with the Timeout error, which is a typed error.
\<close>

definition checkTimeout :: "env \<Rightarrow> state \<Rightarrow> state \<times> flow" where
  "checkTimeout e s =
     (let s' = mark EvCheckTimeout s
      in case deadline s of
           None \<Rightarrow> (s', Next)
         | Some d \<Rightarrow>
             if d \<le> clock s then (s', Panic (PanicError (ImgproxyError (errTimeout e))))
             else (s', Next))"

text \<open>
  Modelled from the spec: \<open>calcETag\<close> is not part of \<open>server.go\<close>. It computes a
  validator over the response-determining inputs, the source bytes and the
  processing options.
\<close>

definition calcETag :: "env \<Rightarrow> bytes \<Rightarrow> processingOptions \<Rightarrow> string" where
  "calcETag e data po = validator e data po"

text \<open>
  Modelled from the spec: \<open>newUnexpectedError\<close> is not part of \<open>server.go\<close>. It wraps
  an error into a 500-class error with the fixed public message; the internal
  message carries the diagnostic context of the given depth.
\<close>

definition newUnexpectedError :: "env \<Rightarrow> go_error \<Rightarrow> nat \<Rightarrow> imgproxyError" where
  "newUnexpectedError e err skip =
     \<lparr>StatusCode = 500, Message = unexpected_msg e err skip, PublicMessage = ''Internal error''\<rparr>"

text \<open>
  \<open>ServeHTTP\<close> is split at its \<open>defer\<close> statements, so that each deferred call runs
  when the block after it ends, in whichever way it ends. The tracing and metrics
  calls and \<open>reportError\<close> do not touch the response and are left out, as is the
  line printed on entry.

  \<open>processed\<close>: from the deadline check before the processing stage to the end.
\<close>

definition processed ::
    "conf \<Rightarrow> env \<Rightarrow> request \<Rightarrow> processingOptions \<Rightarrow> string \<Rightarrow> bytes \<Rightarrow> state \<Rightarrow> state \<times> flow" where
  "processed c e r po imageURL data s =
     (case checkTimeout e s of
        (s1, Next) \<Rightarrow>
          (let s2 = call EvProcessImage e s1 in
           case processImage e data po of
             Panics p \<Rightarrow> (s2, Panic p)
           | Fails err \<Rightarrow> (s2, Panic (PanicError err))
           | Returns imageData \<Rightarrow>
               (case checkTimeout e s2 of
                  (s3, Next) \<Rightarrow> respondWithImage c e r po imageURL imageData s3
                | (s3, fl) \<Rightarrow> (s3, fl)))
      | (s1, fl) \<Rightarrow> (s1, fl))"

text \<open>
  \<open>downloaded\<close>: the statements after \<open>defer downloadcancel()\<close>, given what the
  downloader returned. (A downloader that panics does not get this far, see \<open>timed\<close>;
  the case is there to make the function total.)
\<close>

definition downloaded ::
    "conf \<Rightarrow> env \<Rightarrow> request \<Rightarrow> processingOptions \<Rightarrow> string \<Rightarrow> bytes outcome \<Rightarrow> state \<Rightarrow> state \<times> flow" where
  "downloaded c e r po imageURL res s =
     (case res of
        Panics p \<Rightarrow> (s, Panic p)
      | Fails err \<Rightarrow> (s, Panic (PanicError err))
      | Returns data \<Rightarrow>
          (case checkTimeout e s of
             (s1, Next) \<Rightarrow>
               if ETagEnabled c
               then (let s2 = call EvCalcETag e s1;
                         eTag = calcETag e data po;
                         s3 = setHeader ''ETag'' eTag s2
                     in if eTag = Header_Get r ''If-None-Match''
                        then (respondWithNotModified e s3, Return)
                        else processed c e r po imageURL data s3)
               else processed c e r po imageURL data s1
           | (s1, fl) \<Rightarrow> (s1, fl)))"

text \<open>
  \<open>timed\<close>: the statements after \<open>defer timeoutCancel()\<close>. A downloader that panics
  never returns the cancel function, so nothing is deferred for it.
\<close>

definition timed :: "conf \<Rightarrow> env \<Rightarrow> request \<Rightarrow> state \<Rightarrow> state \<times> flow" where
  "timed c e r s =
     (let s1 = call EvParsePath e s in
      case parsePath e r of
        Panics p \<Rightarrow> (s1, Panic p)
      | Fails err \<Rightarrow> (s1, Panic (PanicError err))
      | Returns (po, imageURL) \<Rightarrow>
          (let s2 = call EvDownloadImage e s1 in
           case downloadImage e imageURL of
             Panics p \<Rightarrow> (s2, Panic p)
           | res \<Rightarrow>
               (let (s3, fl) = downloaded c e r po imageURL res s2
                in (mark EvDownloadCancel s3, fl))))"

text \<open>\<open>admitted\<close>: the statements after \<open>defer h.unlock()\<close>.\<close>

definition admitted :: "conf \<Rightarrow> env \<Rightarrow> request \<Rightarrow> state \<Rightarrow> state \<times> flow" where
  "admitted c e r s =
     (let s1 = startTimer (WriteTimeout c * second) s;
          (s2, fl) = timed c e r s1
      in (mark EvTimeoutCancel s2, fl))"

text \<open>
  \<open>handle\<close>: the statements after the deferred recovery closure. The result is \<open>None\<close>
  when the request blocks on the semaphore.
\<close>

definition handle :: "conf \<Rightarrow> env \<Rightarrow> request \<Rightarrow> state \<Rightarrow> (state \<times> flow) option" where
  "handle c e r s =
     (let s1 = writeCORS c s in
      if Method r = ''OPTIONS'' then Some (respondWithOptions e s1, Return)
      else if Method r \<noteq> ''GET''
      then Some (s1, Panic (PanicError (ImgproxyError errInvalidMethod)))
      else (let (ok, s2) = checkSecret c r s1 in
            if \<not> ok then Some (s2, Panic (PanicError (ImgproxyError errInvalidSecret)))
            else if RequestURI r = healthPath
            then Some (writeBytes imgproxyIsRunningMsg (writeHeader 200 s2), Return)
            else (case lock s2 of
                    None \<Rightarrow> None
                  | Some s3 \<Rightarrow>
                      (let (s4, fl) = admitted c e r s3
                       in case unlock s4 of
                            None \<Rightarrow> None
                          | Some s5 \<Rightarrow> Some (s5, fl)))))"

text \<open>
  The deferred closure of \<open>ServeHTTP\<close>: what \<open>recover()\<close> returns decides. The second
  component of the result is the panic that is raised again, if any.
\<close>

definition recovered :: "env \<Rightarrow> flow \<Rightarrow> state \<Rightarrow> state \<times> panic_value option" where
  "recovered e fl s =
     (case fl of
        Panic (PanicError err) \<Rightarrow>
          (case err of
             ImgproxyError ierr \<Rightarrow> (respondWithError e ierr s, None)
           | OtherError m \<Rightarrow> (respondWithError e (newUnexpectedError e err 4) s, None))
      | Panic (PanicValue v) \<Rightarrow> (s, Some (PanicValue v))
      | _ \<Rightarrow> (s, None))"

definition ServeHTTP ::
    "conf \<Rightarrow> env \<Rightarrow> request \<Rightarrow> state \<Rightarrow> (state \<times> panic_value option) option" where
  "ServeHTTP c e r s =
     (case handle c e r s of
        None \<Rightarrow> None
      | Some (s', fl) \<Rightarrow> Some (recovered e fl s'))"

section \<open>Many requests on one semaphore\<close>











section \<open>Notions of the specification\<close>





text \<open>
  The time that the collaborators take from the start of the timer up to the download
  stage, up to the end of the download stage, of the cache validation and of the
  processing stage.
\<close>

definition time_parsed :: "env \<Rightarrow> int" where
  "time_parsed e = int (elapsed e EvParsePath)"

definition time_downloaded :: "env \<Rightarrow> int" where
  "time_downloaded e = time_parsed e + int (elapsed e EvDownloadImage)"

definition time_validated :: "conf \<Rightarrow> env \<Rightarrow> int" where
  "time_validated c e =
     time_downloaded e + (if ETagEnabled c then int (elapsed e EvCalcETag) else 0)"

definition time_processed :: "conf \<Rightarrow> env \<Rightarrow> int" where
  "time_processed c e = time_validated c e + int (elapsed e EvProcessImage)"

section \<open>Conditions on a run\<close>

text \<open>The deadline of the request has elapsed.\<close>

definition expired :: "state \<Rightarrow> bool" where
  "expired s = (deadline s \<noteq> None \<and> the (deadline s) \<le> clock s)"

text \<open>
  A request is admitted when the server hands it a fresh response writer, it is a GET
  request that passes the auth gate, it is not a health check, and the semaphore has
  room for it.
\<close>

definition admitted_request :: "conf \<Rightarrow> request \<Rightarrow> state \<Rightarrow> bool" where
  "admitted_request c r s =
     (rw s = fresh_rw \<and> Method r = ''GET'' \<and> fst (checkSecret c r s)
      \<and> RequestURI r \<noteq> healthPath \<and> chan_len (h_sem s) < chan_cap (h_sem s))"




text \<open>The calls of a run, in order, without their times.\<close>

definition trace :: "state \<Rightarrow> event list" where
  "trace s = map fst (calls s)"

section \<open>States along a run\<close>

text \<open>
  The state in which an admitted request starts its timer, the state in which the
  downloader returns, the state after the cache-validation stage has set the header,
  and the state in which the response stage begins.
\<close>

definition entered :: "conf \<Rightarrow> request \<Rightarrow> state \<Rightarrow> state" where
  "entered c r s = acquired (snd (checkSecret c r (writeCORS c s)))"

definition fetched :: "conf \<Rightarrow> env \<Rightarrow> request \<Rightarrow> state \<Rightarrow> state" where
  "fetched c e r s =
     call EvDownloadImage e
       (call EvParsePath e (startTimer (WriteTimeout c * second) (entered c r s)))"

definition validated :: "env \<Rightarrow> bytes \<Rightarrow> processingOptions \<Rightarrow> state \<Rightarrow> state" where
  "validated e d po s =
     setHeader ''ETag'' (calcETag e d po) (call EvCalcETag e (mark EvCheckTimeout s))"

definition checked :: "conf \<Rightarrow> env \<Rightarrow> request \<Rightarrow> bytes \<Rightarrow> processingOptions \<Rightarrow> state \<Rightarrow> state" where
  "checked c e r d po s =
     (if ETagEnabled c then validated e d po (fetched c e r s)
      else mark EvCheckTimeout (fetched c e r s))"

definition ready :: "conf \<Rightarrow> env \<Rightarrow> request \<Rightarrow> bytes \<Rightarrow> processingOptions \<Rightarrow> state \<Rightarrow> state" where
  "ready c e r d po s =
     mark EvCheckTimeout (call EvProcessImage e (mark EvCheckTimeout (checked c e r d po s)))"

text \<open>The deferred calls that run when the pipeline ends, up to the release.\<close>

definition unwound :: "state \<Rightarrow> state" where
  "unwound s = released (mark EvTimeoutCancel (mark EvDownloadCancel s))"



text \<open>What a run shows from outside: calls, status, body, and the panic that escapes.\<close>

definition observe ::
    "(state \<times> panic_value option) option \<Rightarrow> (event list \<times> int option \<times> bytes \<times> panic_value option) option" where
  "observe res = map_option (\<lambda>(s, p). (trace s, status (rw s), body (rw s), p)) res"

section \<open>The expected header value and an example installation\<close>


text \<open>
  An installation on which the theorems below are tried: a configuration with a
  secret, gzip and ETags, collaborators that succeed and take one second each, and
  the state of a server that has just started.
\<close>

definition conf0 :: conf where
  "conf0 = \<lparr>Concurrency = 1, WriteTimeout = 10, TTL = 3600, Secret = ''s3cret'',
     AllowOrigin = ''*'', GZipCompression = 1, ETagEnabled = True\<rparr>"

definition po0 :: processingOptions where
  "po0 = \<lparr>Format = imageTypePNG, Transform = ''rs:fit:300:200''\<rparr>"

definition url0 :: string where
  "url0 = ''http://x/y/photo.png?a=b''"

definition env0 :: env where
  "env0 = \<lparr>reqID = ''r1'',
     parsePath = (\<lambda>r. Returns (po0, url0)),
     downloadImage = (\<lambda>u. Returns ''SOURCE''),
     validator = (\<lambda>d po. ''W-'' @ d @ ''-'' @ Transform po),
     processImage = (\<lambda>d po. Returns ''IMAGE''),
     gzipData = (\<lambda>d. (''GZ'' @ d, None)),
     elapsed = (\<lambda>ev. 1000000000),
     errTimeout = newError 503 ''Timeout'' ''Timeout'',
     url_Parse = (\<lambda>u. if u = url0
        then Some \<lparr>Scheme = ''http'', Host = ''x'', Path = ''/y/photo.png'', RawQuery = ''a=b''\<rparr>
        else None),
     http_time = Itoa,
     duration_str = Itoa,
     po_str = Transform,
     unexpected_msg = (\<lambda>err n. ''Unexpected error'')\<rparr>"

definition state0 :: state where
  "state0 = \<lparr>h_sem = \<lparr>chan_cap = 1, chan_len = 0\<rparr>, authHeaderMust = [],
     responseBufPool = [], clock = 0, deadline = None, calls = [], logged = [],
     rw = fresh_rw\<rparr>"

definition req0 :: request where
  "req0 = \<lparr>Method = ''GET'', RequestURI = ''/rs:fit:300:200/plain/http://x/y/photo.png?a=b'',
     Header = [''Authorization'' \<mapsto> ''Bearer s3cret'', ''Accept-Encoding'' \<mapsto> ''gzip, deflate'']\<rparr>"

text \<open>
  The same server with its one admission token taken, a request with a method that
  the handler rejects, a health check, and the requests without credentials.
\<close>

definition state_full :: state where
  "state_full = state0\<lparr>h_sem := \<lparr>chan_cap = 1, chan_len = 1\<rparr>\<rparr>"

definition req_post :: request where
  "req_post = req0\<lparr>Method := ''POST''\<rparr>"

definition req_health :: request where
  "req_health = req0\<lparr>RequestURI := ''/health''\<rparr>"


definition req_health_anon :: request where
  "req_health_anon = req_health\<lparr>Header := Map.empty\<rparr>"




text \<open>
  The configuration with another write timeout; collaborators whose downloader
  returns a typed error; a request that presents the validator of the example source;
  the same request to a server whose only token is taken by someone else.
\<close>

definition conf_timeout :: "int \<Rightarrow> conf" where
  "conf_timeout n = conf0\<lparr>WriteTimeout := n\<rparr>"




section \<open>Properties of the library calls\<close>














section \<open>How the primitive steps act on the state\<close>

lemma mark_proj [simp]:
  "h_sem (mark ev s) = h_sem s" "authHeaderMust (mark ev s) = authHeaderMust s"
  "responseBufPool (mark ev s) = responseBufPool s" "clock (mark ev s) = clock s"
  "deadline (mark ev s) = deadline s" "calls (mark ev s) = calls s @ [(ev, clock s)]"
  "logged (mark ev s) = logged s" "rw (mark ev s) = rw s"
  by (simp_all add: mark_def)

lemma call_proj [simp]:
  "h_sem (call ev e s) = h_sem s" "authHeaderMust (call ev e s) = authHeaderMust s"
  "responseBufPool (call ev e s) = responseBufPool s"
  "clock (call ev e s) = clock s + int (elapsed e ev)"
  "deadline (call ev e s) = deadline s" "calls (call ev e s) = calls s @ [(ev, clock s)]"
  "logged (call ev e s) = logged s" "rw (call ev e s) = rw s"
  by (simp_all add: call_def)

lemma setHeader_proj [simp]:
  "h_sem (setHeader k v s) = h_sem s" "authHeaderMust (setHeader k v s) = authHeaderMust s"
  "responseBufPool (setHeader k v s) = responseBufPool s" "clock (setHeader k v s) = clock s"
  "deadline (setHeader k v s) = deadline s" "calls (setHeader k v s) = calls s"
  "logged (setHeader k v s) = logged s"
  "hdr (rw (setHeader k v s)) = (hdr (rw s))(k \<mapsto> v)"
  "status (rw (setHeader k v s)) = status (rw s)"
  "sent_hdr (rw (setHeader k v s)) = sent_hdr (rw s)"
  "body (rw (setHeader k v s)) = body (rw s)"
  by (simp_all add: setHeader_def Header_Set_def)

lemma writeHeader_proj [simp]:
  "h_sem (writeHeader n s) = h_sem s" "authHeaderMust (writeHeader n s) = authHeaderMust s"
  "responseBufPool (writeHeader n s) = responseBufPool s" "clock (writeHeader n s) = clock s"
  "deadline (writeHeader n s) = deadline s" "calls (writeHeader n s) = calls s"
  "logged (writeHeader n s) = logged s"
  "hdr (rw (writeHeader n s)) = hdr (rw s)"
  "status (rw (writeHeader n s)) = (if status (rw s) = None then Some n else status (rw s))"
  "sent_hdr (rw (writeHeader n s)) = (if status (rw s) = None then hdr (rw s) else sent_hdr (rw s))"
  "body (rw (writeHeader n s)) = body (rw s)"
  by (simp_all add: writeHeader_def WriteHeader_def)

lemma writeBytes_proj [simp]:
  "h_sem (writeBytes b s) = h_sem s" "authHeaderMust (writeBytes b s) = authHeaderMust s"
  "responseBufPool (writeBytes b s) = responseBufPool s" "clock (writeBytes b s) = clock s"
  "deadline (writeBytes b s) = deadline s" "calls (writeBytes b s) = calls s"
  "logged (writeBytes b s) = logged s"
  "hdr (rw (writeBytes b s)) = hdr (rw s)"
  "status (rw (writeBytes b s)) = (if status (rw s) = None then Some 200 else status (rw s))"
  "sent_hdr (rw (writeBytes b s)) = (if status (rw s) = None then hdr (rw s) else sent_hdr (rw s))"
  "body (rw (writeBytes b s)) = body (rw s) @ b"
  by (simp_all add: writeBytes_def Write_def WriteHeader_def Let_def)

lemma logResponse_proj [simp]:
  "h_sem (logResponse n m s) = h_sem s" "authHeaderMust (logResponse n m s) = authHeaderMust s"
  "responseBufPool (logResponse n m s) = responseBufPool s" "clock (logResponse n m s) = clock s"
  "deadline (logResponse n m s) = deadline s" "calls (logResponse n m s) = calls s"
  "rw (logResponse n m s) = rw s"
  by (simp_all add: logResponse_def Let_def)

lemma writeCORS_proj [simp]:
  "h_sem (writeCORS c s) = h_sem s" "authHeaderMust (writeCORS c s) = authHeaderMust s"
  "responseBufPool (writeCORS c s) = responseBufPool s" "clock (writeCORS c s) = clock s"
  "deadline (writeCORS c s) = deadline s" "calls (writeCORS c s) = calls s"
  "logged (writeCORS c s) = logged s"
  "status (rw (writeCORS c s)) = status (rw s)" "body (rw (writeCORS c s)) = body (rw s)"
  "sent_hdr (rw (writeCORS c s)) = sent_hdr (rw s)"
  by (simp_all add: writeCORS_def)

lemma checkSecret_proj [simp]:
  "h_sem (snd (checkSecret c r s)) = h_sem s"
  "responseBufPool (snd (checkSecret c r s)) = responseBufPool s"
  "clock (snd (checkSecret c r s)) = clock s"
  "deadline (snd (checkSecret c r s)) = deadline s" "calls (snd (checkSecret c r s)) = calls s"
  "logged (snd (checkSecret c r s)) = logged s"
  "rw (snd (checkSecret c r s)) = rw s"
  by (simp_all add: checkSecret_def prepareAuthHeaderMust_def Let_def)

lemma checkSecret_writeCORS: "fst (checkSecret c r (writeCORS c s)) = fst (checkSecret c r s)"
  by (simp add: checkSecret_def prepareAuthHeaderMust_def Let_def)

section \<open>The stages of the handler\<close>

lemma respondWithImage_frame [simp]:
  "h_sem (fst (respondWithImage c e r po u img s)) = h_sem s"
  "authHeaderMust (fst (respondWithImage c e r po u img s)) = authHeaderMust s"
  "deadline (fst (respondWithImage c e r po u img s)) = deadline s"
  by (simp_all add: respondWithImage_def Let_def split: prod.splits option.splits)





lemma trace_simps [simp]:
  "trace (mark ev s) = trace s @ [ev]" "trace (call ev e s) = trace s @ [ev]"
  "trace (setHeader k v s) = trace s" "trace (writeHeader n s) = trace s"
  "trace (writeBytes b s) = trace s" "trace (logResponse n m s) = trace s"
  "trace (writeCORS c s) = trace s" "trace (snd (checkSecret c r s)) = trace s"
  by (simp_all add: trace_def)

lemma expired_simps [simp]:
  "expired (mark ev s) = expired s"
  "expired (setHeader k v s) = expired s"
  by (simp_all add: expired_def)

lemma expired_call:
  "expired (call ev e s) = (deadline s \<noteq> None \<and> the (deadline s) \<le> clock s + int (elapsed e ev))"
  by (simp add: expired_def)

lemma expired_call_mark [simp]: "expired (call ev e (mark ev' s)) = expired (call ev e s)"
  by (simp add: expired_def)

lemma checkTimeout_eq:
  "checkTimeout e s =
     (mark EvCheckTimeout s,
      if expired s then Panic (PanicError (ImgproxyError (errTimeout e))) else Next)"
  by (auto simp add: checkTimeout_def expired_def Let_def split: option.splits)


text \<open>The processing stage.\<close>

lemma processed_frame [simp]:
  "h_sem (fst (processed c e r po u d s)) = h_sem s"
  "authHeaderMust (fst (processed c e r po u d s)) = authHeaderMust s"
  "deadline (fst (processed c e r po u d s)) = deadline s"
  by (simp_all add: processed_def checkTimeout_eq Let_def split: outcome.splits)







text \<open>The cache-validation stage.\<close>

lemma respondWithNotModified_proj [simp]:
  "h_sem (respondWithNotModified e s) = h_sem s"
  "authHeaderMust (respondWithNotModified e s) = authHeaderMust s"
  "responseBufPool (respondWithNotModified e s) = responseBufPool s"
  "clock (respondWithNotModified e s) = clock s"
  "deadline (respondWithNotModified e s) = deadline s"
  "trace (respondWithNotModified e s) = trace s"
  "hdr (rw (respondWithNotModified e s)) = hdr (rw s)"
  "status (rw (respondWithNotModified e s)) = (if status (rw s) = None then Some 304 else status (rw s))"
  "sent_hdr (rw (respondWithNotModified e s)) = (if status (rw s) = None then hdr (rw s) else sent_hdr (rw s))"
  "body (rw (respondWithNotModified e s)) = body (rw s)"
  by (simp_all add: respondWithNotModified_def)

lemma downloaded_frame [simp]:
  "h_sem (fst (downloaded c e r po u res s)) = h_sem s"
  "authHeaderMust (fst (downloaded c e r po u res s)) = authHeaderMust s"
  "deadline (fst (downloaded c e r po u res s)) = deadline s"
  by (simp_all add: downloaded_def checkTimeout_eq Let_def split: outcome.splits)







text \<open>From the start of the timer to the release of the semaphore.\<close>

lemma timed_frame [simp]:
  "h_sem (fst (timed c e r s)) = h_sem s"
  "authHeaderMust (fst (timed c e r s)) = authHeaderMust s"
  "deadline (fst (timed c e r s)) = deadline s"
  by (simp_all add: timed_def Let_def split_beta split: outcome.splits)



lemma admitted_eq:
  "admitted c e r s =
     (mark EvTimeoutCancel (fst (timed c e r (startTimer (WriteTimeout c * second) s))),
      snd (timed c e r (startTimer (WriteTimeout c * second) s)))"
  by (simp add: admitted_def Let_def split_beta)

lemma startTimer_proj [simp]:
  "h_sem (startTimer d s) = h_sem s" "authHeaderMust (startTimer d s) = authHeaderMust s"
  "responseBufPool (startTimer d s) = responseBufPool s" "clock (startTimer d s) = clock s"
  "deadline (startTimer d s) = Some (clock s + d)" "trace (startTimer d s) = trace s @ [EvStartTimer]"
  "rw (startTimer d s) = rw s"
  by (simp_all add: startTimer_def trace_def)

lemma admitted_frame [simp]:
  "h_sem (fst (admitted c e r s)) = h_sem s"
  "authHeaderMust (fst (admitted c e r s)) = authHeaderMust s"
  "deadline (fst (admitted c e r s)) = Some (clock s + WriteTimeout c * second)"
  by (simp_all add: admitted_eq)


text \<open>The handler as a whole.\<close>

lemma acquired_proj [simp]:
  "h_sem (acquired s) = (h_sem s)\<lparr>chan_len := chan_len (h_sem s) + 1\<rparr>"
  "authHeaderMust (acquired s) = authHeaderMust s"
  "responseBufPool (acquired s) = responseBufPool s" "clock (acquired s) = clock s"
  "deadline (acquired s) = deadline s" "trace (acquired s) = trace s @ [EvLock]"
  "rw (acquired s) = rw s"
  by (simp_all add: acquired_def trace_def mark_def)

lemma released_proj [simp]:
  "h_sem (released s) = (h_sem s)\<lparr>chan_len := chan_len (h_sem s) - 1\<rparr>"
  "authHeaderMust (released s) = authHeaderMust s"
  "responseBufPool (released s) = responseBufPool s" "clock (released s) = clock s"
  "deadline (released s) = deadline s" "trace (released s) = trace s @ [EvUnlock]"
  "rw (released s) = rw s"
  by (simp_all add: released_def trace_def mark_def)

lemma respondWithError_proj [simp]:
  "h_sem (respondWithError e err s) = h_sem s"
  "authHeaderMust (respondWithError e err s) = authHeaderMust s"
  "responseBufPool (respondWithError e err s) = responseBufPool s"
  "clock (respondWithError e err s) = clock s"
  "deadline (respondWithError e err s) = deadline s"
  "trace (respondWithError e err s) = trace s"
  "hdr (rw (respondWithError e err s)) = hdr (rw s)"
  "status (rw (respondWithError e err s)) =
     (if status (rw s) = None then Some (StatusCode err) else status (rw s))"
  "sent_hdr (rw (respondWithError e err s)) =
     (if status (rw s) = None then hdr (rw s) else sent_hdr (rw s))"
  "body (rw (respondWithError e err s)) = body (rw s) @ PublicMessage err"
  by (simp_all add: respondWithError_def Let_def)


lemma entered_proj [simp]:
  "h_sem (entered c r s) = (h_sem s)\<lparr>chan_len := chan_len (h_sem s) + 1\<rparr>"
  "responseBufPool (entered c r s) = responseBufPool s" "clock (entered c r s) = clock s"
  "deadline (entered c r s) = deadline s" "trace (entered c r s) = trace s @ [EvLock]"
  "status (rw (entered c r s)) = status (rw s)" "body (rw (entered c r s)) = body (rw s)"
  "sent_hdr (rw (entered c r s)) = sent_hdr (rw s)"
  by (simp_all add: entered_def)

lemma unwound_proj [simp]:
  "h_sem (unwound s) = (h_sem s)\<lparr>chan_len := chan_len (h_sem s) - 1\<rparr>"
  "authHeaderMust (unwound s) = authHeaderMust s"
  "responseBufPool (unwound s) = responseBufPool s"
  "deadline (unwound s) = deadline s"
  "trace (unwound s) = trace s @ [EvDownloadCancel, EvTimeoutCancel, EvUnlock]"
  "rw (unwound s) = rw s"
  by (simp_all add: unwound_def)

lemma fetched_proj [simp]:
  "h_sem (fetched c e r s) = (h_sem s)\<lparr>chan_len := chan_len (h_sem s) + 1\<rparr>"
  "responseBufPool (fetched c e r s) = responseBufPool s"
  "clock (fetched c e r s) = clock s + time_downloaded e"
  "deadline (fetched c e r s) = Some (clock s + WriteTimeout c * second)"
  "trace (fetched c e r s) = trace s @ [EvLock, EvStartTimer, EvParsePath, EvDownloadImage]"
  "status (rw (fetched c e r s)) = status (rw s)" "body (rw (fetched c e r s)) = body (rw s)"
  "sent_hdr (rw (fetched c e r s)) = sent_hdr (rw s)"
  by (simp_all add: fetched_def time_downloaded_def time_parsed_def)





text \<open>The auth gate and the ways out of the handler before admission.\<close>

lemma Sprintf_Bearer: "Sprintf_s ''Bearer %s'' x = ''Bearer '' @ x"
  by (simp add: Sprintf_s_def)



lemma respondWithOptions_proj [simp]:
  "h_sem (respondWithOptions e s) = h_sem s"
  "authHeaderMust (respondWithOptions e s) = authHeaderMust s"
  "trace (respondWithOptions e s) = trace s"
  "status (rw (respondWithOptions e s)) = (if status (rw s) = None then Some 200 else status (rw s))"
  "body (rw (respondWithOptions e s)) = body (rw s)"
  by (simp_all add: respondWithOptions_def)


lemma ServeHTTP_forbidden:
  assumes "Method r = ''GET''" "\<not> fst (checkSecret c r s)"
  shows "ServeHTTP c e r s =
           Some (respondWithError e errInvalidSecret (snd (checkSecret c r (writeCORS c s))), None)"
proof -
  have "\<not> fst (checkSecret c r (writeCORS c s))"
    using assms(2) by (simp add: checkSecret_writeCORS)
  then show ?thesis
    using assms(1)
    by (simp add: ServeHTTP_def handle_def recovered_def Let_def split_beta)
qed

lemma ServeHTTP_health:
  assumes "Method r = ''GET''" "fst (checkSecret c r s)" "RequestURI r = healthPath"
  shows "ServeHTTP c e r s =
           Some (writeBytes imgproxyIsRunningMsg
                   (writeHeader 200 (snd (checkSecret c r (writeCORS c s)))), None)"
proof -
  have "fst (checkSecret c r (writeCORS c s))"
    using assms(2) by (simp add: checkSecret_writeCORS)
  then show ?thesis
    using assms(1,3)
    by (simp add: ServeHTTP_def handle_def recovered_def Let_def split_beta)
qed











text \<open>The states along a run.\<close>

lemma rw_entered [simp]: "rw (entered c r s) = rw (writeCORS c s)"
  by (simp add: entered_def)

lemma rw_fetched [simp]: "rw (fetched c e r s) = rw (writeCORS c s)"
  by (simp add: fetched_def)


lemma validated_proj [simp]:
  "h_sem (validated e d po s) = h_sem s"
  "responseBufPool (validated e d po s) = responseBufPool s"
  "clock (validated e d po s) = clock s + int (elapsed e EvCalcETag)"
  "deadline (validated e d po s) = deadline s"
  "trace (validated e d po s) = trace s @ [EvCheckTimeout, EvCalcETag]"
  "status (rw (validated e d po s)) = status (rw s)"
  "body (rw (validated e d po s)) = body (rw s)"
  "sent_hdr (rw (validated e d po s)) = sent_hdr (rw s)"
  "hdr (rw (validated e d po s)) = (hdr (rw s))(''ETag'' \<mapsto> calcETag e d po)"
  by (simp_all add: validated_def)

lemma checked_proj [simp]:
  "h_sem (checked c e r d po s) = (h_sem s)\<lparr>chan_len := chan_len (h_sem s) + 1\<rparr>"
  "responseBufPool (checked c e r d po s) = responseBufPool s"
  "clock (checked c e r d po s) = clock s + time_validated c e"
  "deadline (checked c e r d po s) = Some (clock s + WriteTimeout c * second)"
  "trace (checked c e r d po s) =
     trace s @ [EvLock, EvStartTimer, EvParsePath, EvDownloadImage, EvCheckTimeout]
       @ (if ETagEnabled c then [EvCalcETag] else [])"
  "status (rw (checked c e r d po s)) = status (rw s)"
  "body (rw (checked c e r d po s)) = body (rw s)"
  "sent_hdr (rw (checked c e r d po s)) = sent_hdr (rw s)"
  "hdr (rw (checked c e r d po s)) =
     (if ETagEnabled c then (hdr (rw (writeCORS c s)))(''ETag'' \<mapsto> calcETag e d po)
      else hdr (rw (writeCORS c s)))"
  by (simp_all add: checked_def time_validated_def)

lemma ready_proj [simp]:
  "h_sem (ready c e r d po s) = (h_sem s)\<lparr>chan_len := chan_len (h_sem s) + 1\<rparr>"
  "responseBufPool (ready c e r d po s) = responseBufPool s"
  "clock (ready c e r d po s) = clock s + time_processed c e"
  "deadline (ready c e r d po s) = Some (clock s + WriteTimeout c * second)"
  "trace (ready c e r d po s) =
     trace (checked c e r d po s) @ [EvCheckTimeout, EvProcessImage, EvCheckTimeout]"
  "rw (ready c e r d po s) = rw (checked c e r d po s)"
  by (simp_all add: ready_def time_processed_def)





















lemma conf_timeout_simps [simp]:
  "WriteTimeout (conf_timeout n) = n" "ETagEnabled (conf_timeout n)"
  "time_validated (conf_timeout n) e = time_validated conf0 e"
  "time_processed (conf_timeout n) e = time_processed conf0 e"
  "admitted_request (conf_timeout n) r s = admitted_request conf0 r s"
  by (simp_all add: conf_timeout_def conf0_def time_validated_def time_processed_def
      admitted_request_def checkSecret_def prepareAuthHeaderMust_def)








text \<open>The response stage.\<close>

lemma HasPrefix_iff: "HasPrefix s p = (\<exists>q. s = p @ q)"
  by (auto simp add: HasPrefix_def) (metis append_eq_conv_conj)

lemma Contains_iff: "Contains s sub = (\<exists>p q. s = p @ sub @ q)"
proof (induction s)
  case Nil
  then show ?case by auto
next
  case (Cons c cs)
  show ?case
  proof
    assume "Contains (c # cs) sub"
    then consider "HasPrefix (c # cs) sub" | "Contains cs sub" by auto
    then show "\<exists>p q. c # cs = p @ sub @ q"
    proof cases
      case 1
      then obtain q where "c # cs = sub @ q" by (auto simp add: HasPrefix_iff)
      then have "c # cs = [] @ sub @ q" by simp
      then show ?thesis by blast
    next
      case 2
      then obtain p q where "cs = p @ sub @ q" using Cons.IH by blast
      then have "c # cs = (c # p) @ sub @ q" by simp
      then show ?thesis by blast
    qed
  next
    assume "\<exists>p q. c # cs = p @ sub @ q"
    then obtain p q where pq: "c # cs = p @ sub @ q" by blast
    show "Contains (c # cs) sub"
    proof (cases p)
      case Nil
      then have "HasPrefix (c # cs) sub" using pq by (auto simp add: HasPrefix_iff)
      then show ?thesis by simp
    next
      case (Cons a p')
      then have "cs = p' @ sub @ q" using pq by simp
      then have "Contains cs sub" using Cons.IH by blast
      then show ?thesis by simp
    qed
  qed
qed



















section \<open>The claims\<close>

text \<open>
  C5. A request whose method is neither GET nor OPTIONS is answered with status 422
  and the public message of the InvalidMethod error as the body. The handler does
  not touch the semaphore for it: the response comes whatever the state of the
  semaphore, also when it is full, no call is recorded (in particular no
  \<open>h.lock()\<close>), and the semaphore is left as it was.
\<close>

theorem invalid_method_rejected_before_admission:
  assumes "Method r \<noteq> ''GET''" and "Method r \<noteq> ''OPTIONS''" and "rw s = fresh_rw"
  shows "\<exists>s'. ServeHTTP c e r s = Some (s', None) \<and> status (rw s') = Some 422
           \<and> body (rw s') = PublicMessage errInvalidMethod
           \<and> PublicMessage errInvalidMethod = ''Method doesn't allowed''
           \<and> h_sem s' = h_sem s \<and> trace s' = trace s"
proof -
  have "ServeHTTP c e r s = Some (respondWithError e errInvalidMethod (writeCORS c s), None)"
    using assms(1,2) by (simp add: ServeHTTP_def handle_def recovered_def)
  then show ?thesis
    using assms(3) by (simp add: fresh_rw_def errInvalidMethod_def newError_def)
qed

theorem invalid_method_rejected_before_admission_witness:
  "Method req_post \<noteq> ''GET'' \<and> Method req_post \<noteq> ''OPTIONS'' \<and> rw state_full = fresh_rw
   \<and> chan_len (h_sem state_full) = chan_cap (h_sem state_full)
   \<and> (\<exists>s'. ServeHTTP conf0 env0 req_post state_full = Some (s', None)
         \<and> status (rw s') = Some 422 \<and> body (rw s') = ''Method doesn't allowed''
         \<and> h_sem s' = h_sem state_full \<and> trace s' = [])"
  using invalid_method_rejected_before_admission [of req_post state_full conf0 env0]
  by (auto simp add: req_post_def req0_def state_full_def state0_def trace_def)

text \<open>
  C7, as amended. The handler consults the auth gate before it looks at the request
  target. A GET request whose request target is exactly the health path and which
  passes the auth gate is answered with status 200 and the fixed body. The handler
  does not touch the semaphore for it: the response comes whatever the state of the
  semaphore, also when it is full, no call is recorded (in particular no
  \<open>h.lock()\<close>), and the semaphore is left as it was.
\<close>

theorem health_check_bypasses_admission:
  assumes "Method r = ''GET''" and "RequestURI r = healthPath"
    and "fst (checkSecret c r s)" and "rw s = fresh_rw"
  shows "\<exists>s'. ServeHTTP c e r s = Some (s', None) \<and> status (rw s') = Some 200
           \<and> body (rw s') = imgproxyIsRunningMsg
           \<and> h_sem s' = h_sem s \<and> trace s' = trace s"
  using assms(4)
  by (simp add: ServeHTTP_health [OF assms(1,3,2)] fresh_rw_def)

theorem health_check_bypasses_admission_witness:
  "Method req_health = ''GET'' \<and> RequestURI req_health = healthPath
   \<and> fst (checkSecret conf0 req_health state_full) \<and> rw state_full = fresh_rw
   \<and> chan_len (h_sem state_full) = chan_cap (h_sem state_full)
   \<and> (\<exists>s'. ServeHTTP conf0 env0 req_health state_full = Some (s', None)
         \<and> status (rw s') = Some 200 \<and> body (rw s') = ''imgproxy is running''
         \<and> h_sem s' = h_sem state_full \<and> trace s' = trace state_full)"
proof -
  have h: "Method req_health = ''GET''" "RequestURI req_health = healthPath"
    "fst (checkSecret conf0 req_health state_full)" "rw state_full = fresh_rw"
    by (simp_all add: checkSecret_def prepareAuthHeaderMust_def Let_def
      ConstantTimeCompare_def Header_Get_def lookup_def Sprintf_Bearer
      conf0_def req_health_def req0_def state_full_def state0_def healthPath_def)
  show ?thesis
    using h health_check_bypasses_admission [OF h, of env0]
    by (simp add: imgproxyIsRunningMsg_def state_full_def state0_def)
qed

text \<open>
  C7 as stated fails: with a secret configured, a GET request for the health path
  that carries no credentials is answered 403 by the auth gate.
\<close>

theorem health_check_without_secret_counterexample:
  "Method req_health_anon = ''GET'' \<and> RequestURI req_health_anon = healthPath
   \<and> observe (ServeHTTP conf0 env0 req_health_anon state0) = Some ([], Some 403, ''Forbidden'', None)"
proof -
  have h: "Method req_health_anon = ''GET''" "\<not> fst (checkSecret conf0 req_health_anon state0)"
    by (simp_all add: checkSecret_def prepareAuthHeaderMust_def Let_def
      ConstantTimeCompare_def Header_Get_def lookup_def Sprintf_Bearer
      conf0_def req_health_anon_def req_health_def req0_def state0_def)
  have "observe (ServeHTTP conf0 env0 req_health_anon state0) = Some ([], Some 403, ''Forbidden'', None)"
    by (simp add: ServeHTTP_forbidden [OF h] observe_def errInvalidSecret_def newError_def)
       (simp add: state0_def fresh_rw_def trace_def)
  moreover have "RequestURI req_health_anon = healthPath"
    by (simp add: req_health_anon_def req_health_def healthPath_def)
  ultimately show ?thesis using h(1) by simp
qed



















end
